theory Spec2Isabelle
  imports Main "HOL-Library.Sublist" "HOL-Library.AList"
begin

section \<open>Strings\<close>

text \<open>
  The scaffolder of \<^verbatim>\<open>src/lib/scaffold.ts\<close> works on JavaScript strings and on a
  file tree. A JavaScript string is modelled as a \<^typ>\<open>string\<close>: the bytes of its UTF-8
  form (a string with an unpaired surrogate has none and is not represented). A file
  holds bytes, of any kind; reading it as \<^verbatim>\<open>"utf8"\<close> decodes them into a string.
\<close>

text \<open>\<^verbatim>\<open>s.includes(t)\<close>: \<^verbatim>\<open>t\<close> occurs in \<^verbatim>\<open>s\<close> as a contiguous run.\<close>

fun string_includes :: "string \<Rightarrow> string \<Rightarrow> bool" where
  "string_includes [] t = (t = [])"
| "string_includes (c # cs) t = (prefix t (c # cs) \<or> string_includes cs t)"

text \<open>
  \<^verbatim>\<open>GetSubstitution\<close> of ECMAScript for a string pattern (no capture groups): in the
  replacement text \<^verbatim>\<open>$$\<close> stands for a dollar sign, \<^verbatim>\<open>$&\<close> for the matched text,
  \<^verbatim>\<open>$`\<close> for the text before the match and \<^verbatim>\<open>$'\<close> for the text after it; every
  other character stands for itself.
\<close>

fun GetSubstitution :: "string \<Rightarrow> string \<Rightarrow> string \<Rightarrow> string \<Rightarrow> string" where
  "GetSubstitution matched pre post [] = []"
| "GetSubstitution matched pre post [c] = [c]"
| "GetSubstitution matched pre post (c # d # r) =
     (if c = CHR ''$'' \<and> d = CHR ''$'' then CHR ''$'' # GetSubstitution matched pre post r
      else if c = CHR ''$'' \<and> d = CHR ''&'' then matched @ GetSubstitution matched pre post r
      else if c = CHR ''$'' \<and> d = CHR 0x60 then pre @ GetSubstitution matched pre post r
      else if c = CHR ''$'' \<and> d = CHR 0x27 then post @ GetSubstitution matched pre post r
      else c # GetSubstitution matched pre post (d # r))"

text \<open>
  \<^verbatim>\<open>String.prototype.replaceAll(key, value)\<close> with a string pattern: the matches are
  found from left to right, each search resuming behind the previous match (one
  character further when the pattern is empty); \<open>pre\<close> is the text already passed.
\<close>

function replaceAll_from :: "string \<Rightarrow> string \<Rightarrow> string \<Rightarrow> string \<Rightarrow> string" where
  "replaceAll_from key val pre s =
     (if prefix key s then
        GetSubstitution key pre (drop (length key) s) val @
          (if key = [] then
             (case s of [] \<Rightarrow> [] | c # cs \<Rightarrow> c # replaceAll_from key val (pre @ [c]) cs)
           else replaceAll_from key val (pre @ key) (drop (length key) s))
      else (case s of [] \<Rightarrow> [] | c # cs \<Rightarrow> c # replaceAll_from key val (pre @ [c]) cs))"
  by pat_completeness auto
termination
  by (relation "measure (\<lambda>(key, val, pre, s). length s)") (auto simp: prefix_def)

declare replaceAll_from.simps [simp del]

definition replaceAll :: "string \<Rightarrow> string \<Rightarrow> string \<Rightarrow> string" where
  "replaceAll s key val = replaceAll_from key val [] s"

text \<open>
  \<^verbatim>\<open>JSON.stringify\<close> on an array of strings: each item quoted (\<^verbatim>\<open>QuoteJSONString\<close>),
  the items separated by commas, the whole in square brackets.
\<close>

definition hex_digit :: "nat \<Rightarrow> char" where
  "hex_digit n = (''0123456789abcdef'') ! (n mod 16)"

definition json_escape :: "char \<Rightarrow> string" where
  "json_escape c =
     (if c = CHR 0x22 then [CHR 0x5C, CHR 0x22]
      else if c = CHR 0x5C then [CHR 0x5C, CHR 0x5C]
      else if c = CHR 0x08 then [CHR 0x5C, CHR ''b'']
      else if c = CHR 0x09 then [CHR 0x5C, CHR ''t'']
      else if c = CHR 0x0A then [CHR 0x5C, CHR ''n'']
      else if c = CHR 0x0C then [CHR 0x5C, CHR ''f'']
      else if c = CHR 0x0D then [CHR 0x5C, CHR ''r'']
      else if of_char c < (0x20 :: nat) then
        [CHR 0x5C, CHR ''u'', CHR ''0'', CHR ''0'',
         hex_digit (of_char c div 16), hex_digit (of_char c)]
      else [c])"

definition json_quote :: "string \<Rightarrow> string" where
  "json_quote s = [CHR 0x22] @ concat (map json_escape s) @ [CHR 0x22]"

fun join_comma :: "string list \<Rightarrow> string" where
  "join_comma [] = []"
| "join_comma [x] = x"
| "join_comma (x # y # r) = x @ '','' @ join_comma (y # r)"

definition JSON_stringify :: "string list \<Rightarrow> string" where
  "JSON_stringify ws = ''['' @ join_comma (map json_quote ws) @ '']''"

section \<open>Paths\<close>

text \<open>
  A path is absolute and normalised: the list of its components from the root
  (POSIX). \<^verbatim>\<open>path.join\<close> and \<^verbatim>\<open>path.resolve\<close> normalise lexically: empty and
  \<^verbatim>\<open>.\<close> segments vanish, \<^verbatim>\<open>..\<close> drops the last component and stays at the root.
  A trailing slash, which \<^verbatim>\<open>path.join\<close> keeps, is not represented.
\<close>

type_synonym path = "string list"

fun split_from :: "string \<Rightarrow> string \<Rightarrow> string list" where
  "split_from acc [] = [acc]"
| "split_from acc (c # cs) =
     (if c = CHR ''/'' then acc # split_from [] cs else split_from (acc @ [c]) cs)"

definition segments :: "string \<Rightarrow> string list" where
  "segments s = split_from [] s"

fun apply_segments :: "path \<Rightarrow> string list \<Rightarrow> path" where
  "apply_segments p [] = p"
| "apply_segments p (g # gs) =
     (if g = [] \<or> g = ''.'' then apply_segments p gs
      else if g = ''..'' then apply_segments (butlast p) gs
      else apply_segments (p @ [g]) gs)"

definition path_join :: "path \<Rightarrow> string \<Rightarrow> path" where
  "path_join base s = apply_segments base (segments s)"

definition path_resolve :: "path \<Rightarrow> string \<Rightarrow> path" where
  "path_resolve base s =
     (if s \<noteq> [] \<and> hd s = CHR ''/'' then apply_segments [] (segments s)
      else apply_segments base (segments s))"

definition basename :: "path \<Rightarrow> string" where
  "basename p = (if p = [] then [] else last p)"

definition dirname :: "path \<Rightarrow> path" where
  "dirname p = butlast p"

section \<open>The file tree\<close>

text \<open>
  A node is a file with its bytes or a directory with its entries in listing order.
  There are no links, and timestamps are not kept.
\<close>

datatype node = File string | Dir "(string \<times> node) list"

datatype errno = ENOENT | ENOTDIR | EISDIR | ESAME | ESUBDIR | EDIRTYPE

fun fs_lookup :: "node \<Rightarrow> path \<Rightarrow> node option" where
  "fs_lookup n [] = Some n"
| "fs_lookup (File c) (x # xs) = None"
| "fs_lookup (Dir es) (x # xs) =
     (case map_of es x of None \<Rightarrow> None | Some m \<Rightarrow> fs_lookup m xs)"

text \<open>\<^verbatim>\<open>fs.pathExists\<close> and \<^verbatim>\<open>fs.existsSync\<close>: something is there, of either kind.\<close>

definition pathExists :: "node \<Rightarrow> path \<Rightarrow> bool" where
  "pathExists root p = (fs_lookup root p \<noteq> None)"

text \<open>
  \<open>place root p n\<close> puts node \<open>n\<close> at \<open>p\<close>, new or in place of what was there; the
  parent of \<open>p\<close> has to be an existing directory.
\<close>

fun place :: "node \<Rightarrow> path \<Rightarrow> node \<Rightarrow> node option" where
  "place root [] n = Some n"
| "place (File c) (x # xs) n = None"
| "place (Dir es) (x # xs) n =
     (if xs = [] then Some (Dir (AList.update x n es))
      else (case map_of es x of
              None \<Rightarrow> None
            | Some m \<Rightarrow> (case place m xs n of
                          None \<Rightarrow> None
                        | Some m' \<Rightarrow> Some (Dir (AList.update x m' es)))))"

text \<open>\<^verbatim>\<open>mkdirs\<close>: the directory and its missing ancestors are created.\<close>

fun mkdirs :: "node \<Rightarrow> path \<Rightarrow> node option" where
  "mkdirs (File c) p = None"
| "mkdirs (Dir es) [] = Some (Dir es)"
| "mkdirs (Dir es) (x # xs) =
     (case mkdirs (case map_of es x of None \<Rightarrow> Dir [] | Some m \<Rightarrow> m) xs of
        None \<Rightarrow> None
      | Some m' \<Rightarrow> Some (Dir (AList.update x m' es)))"

definition readFile :: "node \<Rightarrow> path \<Rightarrow> errno + string" where
  "readFile root p =
     (case fs_lookup root p of
        None \<Rightarrow> Inl ENOENT
      | Some (Dir es) \<Rightarrow> Inl EISDIR
      | Some (File c) \<Rightarrow> Inr c)"

definition writeFile :: "node \<Rightarrow> path \<Rightarrow> string \<Rightarrow> errno + node" where
  "writeFile root p c =
     (case fs_lookup root p of
        Some (Dir es) \<Rightarrow> Inl EISDIR
      | _ \<Rightarrow> (case place root p (File c) of None \<Rightarrow> Inl ENOENT | Some root' \<Rightarrow> Inr root'))"

text \<open>
  The UTF-8 decoder behind \<^verbatim>\<open>fs.readFile(p, "utf8")\<close>, as the Encoding Standard has it:
  \<open>needed\<close> continuation bytes are still awaited, the next one within \<open>lower\<close> and
  \<open>upper\<close>, and \<open>seen\<close> holds the bytes of the sequence so far. A complete sequence
  is a code point, represented by those same bytes; a byte that cannot start or continue
  a sequence, and an input that ends within one, give the replacement character U+FFFD
  (\<^verbatim>\<open>EF BF BD\<close>), and a byte that breaks a sequence is looked at again as a first byte.
\<close>

definition utf8_replacement :: string where
  "utf8_replacement = [CHR 0xEF, CHR 0xBF, CHR 0xBD]"

definition byte_in :: "nat \<Rightarrow> nat \<Rightarrow> char \<Rightarrow> bool" where
  "byte_in lo hi b = (lo \<le> of_char b \<and> of_char b \<le> hi)"

function utf8_decode_from :: "nat \<Rightarrow> nat \<Rightarrow> nat \<Rightarrow> string \<Rightarrow> string \<Rightarrow> string" where
  "utf8_decode_from needed lower upper seen [] =
     (if needed = 0 then [] else utf8_replacement)"
| "utf8_decode_from needed lower upper seen (b # bs) =
     (if needed = 0 then
        (if byte_in 0x00 0x7F b then b # utf8_decode_from 0 0x80 0xBF [] bs
         else if byte_in 0xC2 0xDF b then utf8_decode_from 1 0x80 0xBF [b] bs
         else if byte_in 0xE0 0xEF b then
           utf8_decode_from 2 (if b = CHR 0xE0 then 0xA0 else 0x80)
             (if b = CHR 0xED then 0x9F else 0xBF) [b] bs
         else if byte_in 0xF0 0xF4 b then
           utf8_decode_from 3 (if b = CHR 0xF0 then 0x90 else 0x80)
             (if b = CHR 0xF4 then 0x8F else 0xBF) [b] bs
         else utf8_replacement @ utf8_decode_from 0 0x80 0xBF [] bs)
      else if \<not> byte_in lower upper b then
        utf8_replacement @ utf8_decode_from 0 0x80 0xBF [] (b # bs)
      else if needed = 1 then seen @ [b] @ utf8_decode_from 0 0x80 0xBF [] bs
      else utf8_decode_from (needed - 1) 0x80 0xBF (seen @ [b]) bs)"
  by pat_completeness auto
termination
  by (relation "measure (\<lambda>(needed, lower, upper, seen, s).
        2 * length s + (if needed = 0 then 0 else 1))") auto

declare utf8_decode_from.simps [simp del]

definition utf8_decode :: "string \<Rightarrow> string" where
  "utf8_decode bytes = utf8_decode_from 0 0x80 0xBF [] bytes"

text \<open>Bytes are valid UTF-8 when decoding gives them back: nothing was replaced.\<close>

definition valid_utf8 :: "string \<Rightarrow> bool" where
  "valid_utf8 bytes = (utf8_decode bytes = bytes)"

text \<open>\<^verbatim>\<open>fs.readFile(p, "utf8")\<close>: the bytes of the file, decoded.\<close>

definition readFile_utf8 :: "node \<Rightarrow> path \<Rightarrow> errno + string" where
  "readFile_utf8 root p =
     (case readFile root p of Inl en \<Rightarrow> Inl en | Inr bytes \<Rightarrow> Inr (utf8_decode bytes))"

text \<open>
  \<^verbatim>\<open>fs.writeFile(p, s, "utf8")\<close>: the string is stored in its UTF-8 form, the bytes
  that represent it here.
\<close>

definition writeFile_utf8 :: "node \<Rightarrow> path \<Rightarrow> string \<Rightarrow> errno + node" where
  "writeFile_utf8 root p s = writeFile root p s"

text \<open>
  \<^verbatim>\<open>fs.appendFile\<close> opens with flag \<^verbatim>\<open>a\<close>: a file that is not there is created. The
  string appended goes to the end in its UTF-8 form; what the file holds is not decoded.
\<close>

definition appendFile :: "node \<Rightarrow> path \<Rightarrow> string \<Rightarrow> errno + node" where
  "appendFile root p d =
     (case fs_lookup root p of
        Some (Dir es) \<Rightarrow> Inl EISDIR
      | Some (File c) \<Rightarrow>
          (case place root p (File (c @ d)) of None \<Rightarrow> Inl ENOENT | Some root' \<Rightarrow> Inr root')
      | None \<Rightarrow>
          (case place root p (File d) of None \<Rightarrow> Inl ENOENT | Some root' \<Rightarrow> Inr root'))"


section \<open>Recursive copy\<close>

text \<open>
  \<^verbatim>\<open>fs.copy(src, dest, {filter})\<close> of fs-extra, with its default of overwriting.
  \<open>copy_node\<close> copies the node found at source path \<open>sp\<close> over what the destination
  holds (\<open>None\<close>: nothing yet) and returns the destination's new node; the filter is
  asked for every entry of every directory met, with the entry's source path. A file
  never replaces a directory nor a directory a file. An error stops the copy and leaves
  what was written before it.
\<close>

fun copy_node :: "(path \<Rightarrow> bool) \<Rightarrow> path \<Rightarrow> node \<Rightarrow> node option \<Rightarrow> errno option \<times> node option"
  and copy_entries :: "(path \<Rightarrow> bool) \<Rightarrow> path \<Rightarrow> (string \<times> node) list \<Rightarrow>
    (string \<times> node) list \<Rightarrow> errno option \<times> (string \<times> node) list"
where
  "copy_node flt sp (File c) d =
     (case d of Some (Dir ds) \<Rightarrow> (Some EDIRTYPE, d) | _ \<Rightarrow> (None, Some (File c)))"
| "copy_node flt sp (Dir es) d =
     (case d of
        Some (File c) \<Rightarrow> (Some EDIRTYPE, d)
      | Some (Dir ds) \<Rightarrow> (case copy_entries flt sp es ds of (e, ds') \<Rightarrow> (e, Some (Dir ds')))
      | None \<Rightarrow> (case copy_entries flt sp es [] of (e, ds') \<Rightarrow> (e, Some (Dir ds'))))"
| "copy_entries flt sp [] ds = (None, ds)"
| "copy_entries flt sp ((x, n) # es) ds =
     (if flt (sp @ [x]) then
        (case copy_node flt (sp @ [x]) n (map_of ds x) of
           (Some e, r) \<Rightarrow> (Some e, (case r of None \<Rightarrow> ds | Some m \<Rightarrow> AList.update x m ds))
         | (None, r) \<Rightarrow>
             copy_entries flt sp es (case r of None \<Rightarrow> ds | Some m \<Rightarrow> AList.update x m ds))
      else copy_entries flt sp es ds)"

text \<open>
  The checks \<^verbatim>\<open>fs.copy\<close> makes first: the source exists, source and destination are
  not the same, their kinds agree when both exist, and a directory is not copied into
  itself. Then the filter is asked for the source itself (\<open>False\<close>: nothing is done),
  the destination's parent is created if it is missing, and the tree is copied.
\<close>

definition fs_copy :: "(path \<Rightarrow> bool) \<Rightarrow> path \<Rightarrow> path \<Rightarrow> node \<Rightarrow> errno option \<times> node" where
  "fs_copy flt src dest root =
     (case fs_lookup root src of
        None \<Rightarrow> (Some ENOENT, root)
      | Some s \<Rightarrow>
          if src = dest then (Some ESAME, root)
          else if (case (s, fs_lookup root dest) of
                     (Dir es, Some (File c)) \<Rightarrow> True
                   | (File c, Some (Dir ds)) \<Rightarrow> True
                   | _ \<Rightarrow> False) then (Some EDIRTYPE, root)
          else if (case s of Dir es \<Rightarrow> prefix src dest | File c \<Rightarrow> False) then (Some ESUBDIR, root)
          else if \<not> flt src then (None, root)
          else
            (case (if pathExists root (dirname dest) then Some root else mkdirs root (dirname dest)) of
               None \<Rightarrow> (Some ENOTDIR, root)
             | Some root1 \<Rightarrow>
                 (case copy_node flt src s (fs_lookup root1 dest) of
                    (e, None) \<Rightarrow> (e, root1)
                  | (e, Some n) \<Rightarrow>
                      (case place root1 dest n of
                         None \<Rightarrow> (Some ENOTDIR, root1)
                       | Some root2 \<Rightarrow> (e, root2)))))"

section \<open>The scaffold request and its surroundings\<close>

typedecl js_number

datatype package_manager = Npm | Yarn | Pnpm

record ScaffoldOptions =
  appName :: string
  useTs :: bool
  template :: "string option"
  withContracts :: "bool option"
  horizonUrl :: "string option"
  sorobanUrl :: "string option"
  wallets :: "string list option"
  defaults :: "bool option"
  skipInstall :: "bool option"
  packageManager :: "package_manager option"
  installTimeout :: "js_number option"

text \<open>What the scaffolder can touch: the file tree and the console.\<close>

record world =
  files :: node
  console :: "string list"

text \<open>
  The install delegate \<^verbatim>\<open>runInstall\<close> of \<^verbatim>\<open>./install.js\<close> is a collaborator: it is
  given its argument object and may change the world; it reports a success flag and
  the package manager it used.
\<close>

record install_args =
  arg_cwd :: path
  arg_skipInstall :: "bool option"
  arg_packageManager :: "package_manager option"
  arg_timeout :: "js_number option"

record install_result =
  success :: bool
  used_packageManager :: string

text \<open>
  The surroundings of a run: the directory of the running module (\<^verbatim>\<open>__dirname\<close>), the
  working directory (\<^verbatim>\<open>process.cwd()\<close>), the install delegate, and the JSON library:
  \<open>env_manifest_scripts\<close> maps the bytes of a manifest to the bytes written back by
  lines 84 to 88 (decoded, parsed, the two script entries set, printed with two spaces of
  indentation), or to \<open>None\<close> where parsing or the assignment throws.
\<close>

record env =
  env_dirname :: path
  env_cwd :: path
  env_manifest_scripts :: "string \<Rightarrow> string option"
  env_runInstall :: "install_args \<Rightarrow> world \<Rightarrow> install_result \<times> world"

datatype error =
    UnsupportedTemplate string
  | DirectoryExists string
  | CopyFailure errno
  | FsFailure errno
  | JsonFailure
  | InstallFailure string string

definition dquote :: string where
  "dquote = [CHR 0x22]"

fun error_message :: "error \<Rightarrow> string" where
  "error_message (UnsupportedTemplate templateName) =
     ''Template '' @ dquote @ templateName @ dquote @
     '' is not available for JavaScript yet. Please use the default template with --javascript.''"
| "error_message (DirectoryExists name) =
     ''Directory '' @ dquote @ name @ dquote @ '' already exists.''"
| "error_message (InstallFailure pm name) =
     ''Dependency installation failed. Please run '' @ dquote @ pm @ '' install'' @ dquote @
     '' manually in '' @ dquote @ name @ dquote @ ''.''"
| "error_message (CopyFailure e) = ''copy failed''"
| "error_message (FsFailure e) = ''file system error''"
| "error_message JsonFailure = ''invalid manifest''"

text \<open>JavaScript truthiness of an optional flag and of an optional string.\<close>

definition truthy :: "bool option \<Rightarrow> bool" where
  "truthy b = (b = Some True)"

definition or_default :: "string option \<Rightarrow> string \<Rightarrow> string" where
  "or_default s d = (case s of None \<Rightarrow> d | Some t \<Rightarrow> if t = [] then d else t)"


section \<open>The scaffolder\<close>

text \<open>Line 37: \<^verbatim>\<open>template || "default"\<close>.\<close>

definition templateName_of :: "ScaffoldOptions \<Rightarrow> string" where
  "templateName_of options = or_default (template options) ''default''"

text \<open>Line 43.\<close>

definition resolvedTemplateName_of :: "ScaffoldOptions \<Rightarrow> string" where
  "resolvedTemplateName_of options =
     (if useTs options then templateName_of options else ''js-template'')"

text \<open>Lines 46 to 52: the candidate roots, in search order.\<close>

definition templateRoots :: "env \<Rightarrow> path list" where
  "templateRoots e =
     [path_resolve (env_dirname e) ''../templates'',
      path_resolve (env_dirname e) ''../../templates'',
      path_resolve (env_dirname e) ''../../../src/templates'',
      path_resolve (env_dirname e) ''../../nextellar/src/templates'',
      path_resolve (env_dirname e) ''../../../nextellar/src/templates'']"

text \<open>The probe of lines 54 and 55.\<close>

definition has_manifest :: "node \<Rightarrow> string \<Rightarrow> path \<Rightarrow> bool" where
  "has_manifest root resolvedTemplateName candidate =
     pathExists root (path_join (path_join candidate resolvedTemplateName) ''package.json'')"

text \<open>Lines 53 to 56: the first candidate that passes the probe, else the last one.\<close>

definition templateRoot_of :: "env \<Rightarrow> node \<Rightarrow> string \<Rightarrow> path" where
  "templateRoot_of e root resolvedTemplateName =
     (case find (has_manifest root resolvedTemplateName) (templateRoots e) of
        Some candidate \<Rightarrow> candidate
      | None \<Rightarrow> templateRoots e ! (length (templateRoots e) - 1))"

text \<open>Line 59.\<close>

definition targetDir_of :: "env \<Rightarrow> ScaffoldOptions \<Rightarrow> path" where
  "targetDir_of e options = path_resolve (env_cwd e) (appName options)"

text \<open>Lines 66 to 69: the filter of the template copy.\<close>

definition copy_filter :: "path \<Rightarrow> bool" where
  "copy_filter src = (basename src \<noteq> ''.git'' \<and> basename src \<noteq> ''node_modules'')"

text \<open>Line 94: the text appended to the environment sample.\<close>

definition env_block :: string where
  "env_block = [CHR 0x0A] @ ''# Soroban Smart Contracts'' @ [CHR 0x0A] @
     ''NEXT_PUBLIC_HELLO_WORLD_CONTRACT_ID=C_REPLACE_WITH_YOUR_CONTRACT_ID'' @ [CHR 0x0A]"

text \<open>Lines 82 to 89: the manifest gets its two script entries, if it is there.\<close>

definition manifest_step :: "env \<Rightarrow> path \<Rightarrow> node \<Rightarrow> error option \<times> node" where
  "manifest_step e targetDir root =
     (let pkgJsonPath = path_join targetDir ''package.json'' in
      if pathExists root pkgJsonPath then
        (case readFile root pkgJsonPath of
           Inl en \<Rightarrow> (Some (FsFailure en), root)
         | Inr txt \<Rightarrow>
             (case env_manifest_scripts e txt of
                None \<Rightarrow> (Some JsonFailure, root)
              | Some txt' \<Rightarrow>
                  (case writeFile root pkgJsonPath txt' of
                     Inl en \<Rightarrow> (Some (FsFailure en), root)
                   | Inr root' \<Rightarrow> (None, root'))))
      else (None, root))"

text \<open>Lines 91 to 95: the append to the environment sample.\<close>

definition env_example_step :: "path \<Rightarrow> node \<Rightarrow> error option \<times> node" where
  "env_example_step targetDir root =
     (let envExamplePath = path_join targetDir ''.env.example'' in
      case appendFile root envExamplePath env_block of
        Inl en \<Rightarrow> (Some (FsFailure en), root)
      | Inr root' \<Rightarrow> (None, root'))"

text \<open>Lines 74 to 95: the body of \<^verbatim>\<open>if (withContracts)\<close>.\<close>

definition contracts_feature :: "env \<Rightarrow> path \<Rightarrow> path \<Rightarrow> node \<Rightarrow> error option \<times> node" where
  "contracts_feature e templateRoot targetDir root =
     (let contractsTemplateDir = path_join templateRoot ''contracts-template'' in
      case (if pathExists root contractsTemplateDir
            then (case fs_copy (\<lambda>src. True) contractsTemplateDir targetDir root of
                    (Some en, r) \<Rightarrow> (Some (CopyFailure en), r)
                  | (None, r) \<Rightarrow> (None, r))
            else (None, root)) of
        (Some err, root1) \<Rightarrow> (Some err, root1)
      | (None, root1) \<Rightarrow>
          (case manifest_step e targetDir root1 of
             (Some err, root2) \<Rightarrow> (Some err, root2)
           | (None, root2) \<Rightarrow> env_example_step targetDir root2))"

text \<open>Lines 103 to 106: every token of the map replaced, in the map's order.\<close>

definition replace_tokens :: "string \<Rightarrow> (string \<times> string) list \<Rightarrow> string" where
  "replace_tokens content replacements =
     foldl (\<lambda>newContent (key, val). replaceAll newContent key val) content replacements"

text \<open>Lines 98 to 108.\<close>

definition replaceInFile :: "node \<Rightarrow> path \<Rightarrow> (string \<times> string) list \<Rightarrow> error option \<times> node" where
  "replaceInFile root filePath replacements =
     (case readFile_utf8 root filePath of
        Inl en \<Rightarrow> (Some (FsFailure en), root)
      | Inr content \<Rightarrow>
          (case writeFile_utf8 root filePath (replace_tokens content replacements) of
             Inl en \<Rightarrow> (Some (FsFailure en), root)
           | Inr root' \<Rightarrow> (None, root')))"

text \<open>Lines 114 and 115, and 116 to 119.\<close>

definition network_label :: "ScaffoldOptions \<Rightarrow> string" where
  "network_label options =
     (case horizonUrl options of
        None \<Rightarrow> ''TESTNET''
      | Some u \<Rightarrow> if u \<noteq> [] \<and> string_includes u ''public'' then ''PUBLIC'' else ''TESTNET'')"

definition wallets_value :: "ScaffoldOptions \<Rightarrow> string" where
  "wallets_value options =
     (case wallets options of
        None \<Rightarrow> JSON_stringify [''freighter'', ''albedo'', ''lobstr'']
      | Some ws \<Rightarrow>
          if length ws > 0 then JSON_stringify ws
          else JSON_stringify [''freighter'', ''albedo'', ''lobstr''])"

text \<open>Lines 110 to 120: the substitution map, in the order of its keys.\<close>

definition config :: "ScaffoldOptions \<Rightarrow> (string \<times> string) list" where
  "config options =
     [(''{{APP_NAME}}'', appName options),
      (''{{HORIZON_URL}}'', or_default (horizonUrl options) ''https://horizon-testnet.stellar.org''),
      (''{{SOROBAN_URL}}'', or_default (sorobanUrl options) ''https://soroban-testnet.stellar.org''),
      (''{{NETWORK}}'', network_label options),
      (''{{WALLETS}}'', wallets_value options)]"

text \<open>Lines 122 to 132.\<close>

definition filesToProcess :: "path \<Rightarrow> path list" where
  "filesToProcess targetDir =
     [path_join targetDir ''package.json'',
      path_join targetDir ''README.md'',
      path_join targetDir ''src/contexts/WalletProvider.tsx'',
      path_join targetDir ''src/contexts/WalletProvider.jsx'',
      path_join targetDir ''src/lib/stellar-wallet-kit.ts'',
      path_join targetDir ''src/lib/stellar-wallet-kit.js'',
      path_join targetDir ''src/hooks/useSorobanContract.ts'',
      path_join targetDir ''src/hooks/useSorobanContract.js'',
      path_join targetDir ''.env.example'']"

text \<open>Lines 134 to 138.\<close>

fun process_files :: "node \<Rightarrow> path list \<Rightarrow> (string \<times> string) list \<Rightarrow> error option \<times> node" where
  "process_files root [] replacements = (None, root)"
| "process_files root (filePath # rest) replacements =
     (if pathExists root filePath then
        (case replaceInFile root filePath replacements of
           (Some err, root') \<Rightarrow> (Some err, root')
         | (None, root') \<Rightarrow> process_files root' rest replacements)
      else process_files root rest replacements)"

text \<open>Line 140: the line printed once the files are in place.\<close>

definition scaffolded_line :: "string \<Rightarrow> string" where
  "scaffolded_line name =
     [CHR 0xE2, CHR 0x9C, CHR 0x94, CHR 0xEF, CHR 0xB8, CHR 0x8F] @
     ''  Scaffolded '' @ dquote @ name @ dquote @ '' from template.''"

text \<open>Lines 142 to 147: the argument of the install delegate.\<close>

definition install_args_of :: "env \<Rightarrow> ScaffoldOptions \<Rightarrow> install_args" where
  "install_args_of e options =
     \<lparr>arg_cwd = targetDir_of e options,
      arg_skipInstall = skipInstall options,
      arg_packageManager = packageManager options,
      arg_timeout = installTimeout options\<rparr>"

text \<open>
  Lines 37 to 140 of \<^verbatim>\<open>scaffold\<close>: validation, template resolution, the check of the
  target, the copy, the contracts feature, the substitution and the console line. The
  result is the error thrown, if any, and the world as it is left.
\<close>

definition scaffold_files :: "env \<Rightarrow> ScaffoldOptions \<Rightarrow> world \<Rightarrow> error option \<times> world" where
  "scaffold_files e options w =
     (let templateName = templateName_of options in
      if \<not> useTs options \<and> templateName \<noteq> ''default''
      then (Some (UnsupportedTemplate templateName), w)
      else
        let resolvedTemplateName = resolvedTemplateName_of options;
            templateRoot = templateRoot_of e (files w) resolvedTemplateName;
            templateDir = path_join templateRoot resolvedTemplateName;
            targetDir = targetDir_of e options
        in
          if pathExists (files w) targetDir
          then (Some (DirectoryExists (appName options)), w)
          else
            (case fs_copy copy_filter templateDir targetDir (files w) of
               (Some en, root1) \<Rightarrow> (Some (CopyFailure en), w\<lparr>files := root1\<rparr>)
             | (None, root1) \<Rightarrow>
                 (case (if truthy (withContracts options)
                        then contracts_feature e templateRoot targetDir root1
                        else (None, root1)) of
                    (Some err, root2) \<Rightarrow> (Some err, w\<lparr>files := root2\<rparr>)
                  | (None, root2) \<Rightarrow>
                      (case process_files root2 (filesToProcess targetDir) (config options) of
                         (Some err, root3) \<Rightarrow> (Some err, w\<lparr>files := root3\<rparr>)
                       | (None, root3) \<Rightarrow>
                           (None, w\<lparr>files := root3,
                                    console := console w @ [scaffolded_line (appName options)]\<rparr>)))))"

text \<open>
  \<^verbatim>\<open>scaffold\<close>, whole: lines 37 to 140, then the install delegate and the check of
  its result (lines 142 to 153).
\<close>

definition scaffold :: "env \<Rightarrow> ScaffoldOptions \<Rightarrow> world \<Rightarrow> error option \<times> world" where
  "scaffold e options w =
     (case scaffold_files e options w of
        (Some err, w') \<Rightarrow> (Some err, w')
      | (None, w') \<Rightarrow>
          (case env_runInstall e (install_args_of e options) w' of
             (result, w'') \<Rightarrow>
               if \<not> success result \<and> \<not> truthy (skipInstall options)
               then (Some (InstallFailure (used_packageManager result) (appName options)), w'')
               else (None, w'')))"


section \<open>The exclusion rule, as the specification words it\<close>

text \<open>The names the copy must leave out: version-control metadata and the dependency cache.\<close>

definition excluded :: "string \<Rightarrow> bool" where
  "excluded x = (x = ''.git'' \<or> x = ''node_modules'')"

text \<open>
  What the rule asks of the target: the template tree without its entries of an
  excluded name, at every level, each with all that is below it.
\<close>

fun prune :: "node \<Rightarrow> node"
  and prune_entries :: "(string \<times> node) list \<Rightarrow> (string \<times> node) list"
where
  "prune (File c) = File c"
| "prune (Dir es) = Dir (prune_entries es)"
| "prune_entries [] = []"
| "prune_entries ((x, n) # es) =
     (if excluded x then prune_entries es else (x, prune n) # prune_entries es)"

text \<open>A tree as a file system holds it: no directory lists a name twice.\<close>

fun wf_node :: "node \<Rightarrow> bool"
  and wf_entries :: "(string \<times> node) list \<Rightarrow> bool"
where
  "wf_node (File c) = True"
| "wf_node (Dir es) = wf_entries es"
| "wf_entries [] = True"
| "wf_entries ((x, n) # es) = (x \<notin> fst ` set es \<and> wf_node n \<and> wf_entries es)"

section \<open>A small installation, for the examples\<close>

text \<open>
  The module runs from \<^verbatim>\<open>/app/dist/lib\<close>; the first candidate root holds the template
  \<^verbatim>\<open>default\<close>, with a manifest; the last candidate root holds a template \<^verbatim>\<open>bare\<close>
  without one. The working directory \<^verbatim>\<open>/work\<close> already has a directory \<^verbatim>\<open>old\<close>.
  The install delegate of the example reports a failure of \<^verbatim>\<open>npm\<close> and leaves the
  world alone; its JSON library rejects every text (no example reaches it).
\<close>

definition demo_template :: node where
  "demo_template =
     Dir [(''package.json'', File ''{{APP_NAME}}''),
          (''.git'', Dir [(''HEAD'', File ''ref'')]),
          (''src'', Dir [(''node_modules'', Dir [(''m.js'', File ''x'')]),
                        (''a.ts'', File ''b'')])]"

definition demo_tree :: node where
  "demo_tree =
     Dir [(''app'', Dir [(''dist'', Dir [(''lib'', Dir []),
                                        (''templates'', Dir [(''default'', demo_template)])])]),
          (''nextellar'', Dir [(''src'', Dir [(''templates'',
             Dir [(''bare'', Dir [(''README.md'', File ''# {{APP_NAME}}'')])])])]),
          (''work'', Dir [(''old'', Dir [(''keep'', File ''k'')])])]"

definition demo_world :: world where
  "demo_world = \<lparr>files = demo_tree, console = []\<rparr>"

definition demo_env :: env where
  "demo_env =
     \<lparr>env_dirname = [''app'', ''dist'', ''lib''],
      env_cwd = [''work''],
      env_manifest_scripts = (\<lambda>txt. None),
      env_runInstall = (\<lambda>args w. (\<lparr>success = False, used_packageManager = ''npm''\<rparr>, w))\<rparr>"

definition demo_options :: ScaffoldOptions where
  "demo_options =
     \<lparr>appName = ''demo'', useTs = True, template = None, withContracts = None,
      horizonUrl = None, sorobanUrl = None, wallets = None, defaults = None,
      skipInstall = None, packageManager = None, installTimeout = None\<rparr>"


section \<open>Facts about strings, lists and the file tree\<close>

lemma string_includes_sublist: "string_includes s t \<longleftrightarrow> sublist t s"
  by (induction s) (auto simp: sublist_Cons_right)

lemma sublist_between: "sublist t (a @ t @ b)"
  unfolding sublist_def by blast

lemma find_first:
  "i < length xs \<Longrightarrow> P (xs ! i) \<Longrightarrow> (\<forall>j<i. \<not> P (xs ! j)) \<Longrightarrow> find P xs = Some (xs ! i)"
proof (induction xs arbitrary: i)
  case Nil
  then show ?case by simp
next
  case (Cons x xs)
  show ?case
  proof (cases i)
    case 0
    with Cons.prems show ?thesis by simp
  next
    case (Suc k)
    with Cons.prems have "\<not> P x" by auto
    moreover have "find P xs = Some (xs ! k)"
      using Cons.prems Suc by (intro Cons.IH) auto
    ultimately show ?thesis using Suc by simp
  qed
qed

lemma find_mem: "find P xs = Some c \<Longrightarrow> c \<in> set xs"
  by (induction xs) (auto split: if_splits)

lemma length_templateRoots: "length (templateRoots e) = 5"
  by (simp add: templateRoots_def)

lemma replaceAll_from_absent: "\<not> sublist key s \<Longrightarrow> replaceAll_from key val pre s = s"
proof (induction key val pre s rule: replaceAll_from.induct)
  case (1 key val pre s)
  from "1.prems" have np: "\<not> prefix key s"
    by (auto simp: sublist_def prefix_def)
  show ?case
  proof (cases s)
    case Nil
    with np show ?thesis by (subst replaceAll_from.simps) simp
  next
    case (Cons c cs)
    with "1.prems" have "\<not> sublist key cs"
      by (simp add: sublist_Cons_right)
    with "1.IH"(3)[OF np Cons] have "replaceAll_from key val (pre @ [c]) cs = cs"
      by simp
    with np Cons show ?thesis by (subst replaceAll_from.simps) simp
  qed
qed

lemma ascii_valid: "\<forall>c\<in>set s. byte_in 0x00 0x7F c \<Longrightarrow> valid_utf8 s"
  unfolding valid_utf8_def utf8_decode_def
  by (induction s) (simp_all add: utf8_decode_from.simps)

lemma replace_tokens_absent:
  "\<forall>(key, val)\<in>set replacements. \<not> sublist key content \<Longrightarrow>
   replace_tokens content replacements = content"
  unfolding replace_tokens_def
  by (induction replacements) (auto simp: replaceAll_def replaceAll_from_absent)

lemma place_same: "fs_lookup root p = Some n \<Longrightarrow> place root p n = Some root"
  by (induction root p arbitrary: n rule: fs_lookup.induct)
     (auto simp: AList.update_triv split: option.splits)

lemma lookup_place: "place root p n = Some root' \<Longrightarrow> fs_lookup root' p = Some n"
  by (induction root p n arbitrary: root' rule: place.induct)
     (auto simp: update_conv' split: if_splits option.splits)

lemma lookup_append:
  "fs_lookup root (p @ q) = (case fs_lookup root p of None \<Rightarrow> None | Some n \<Rightarrow> fs_lookup n q)"
  by (induction root p rule: fs_lookup.induct) (auto split: option.splits)

lemma lookup_mkdirs:
  "mkdirs root p = Some root' \<Longrightarrow> \<not> prefix q p \<Longrightarrow> fs_lookup root q = None \<Longrightarrow>
   fs_lookup root' q = None"
proof (induction root p arbitrary: root' q rule: mkdirs.induct)
  case (1 c p)
  then show ?case by simp
next
  case (2 es)
  then show ?case by simp
next
  case (3 es x xs)
  let ?child = "case map_of es x of None \<Rightarrow> Dir [] | Some m \<Rightarrow> m"
  from "3.prems"(1) obtain m' where m': "mkdirs ?child xs = Some m'"
    and r': "root' = Dir (AList.update x m' es)"
    by (auto split: option.splits)
  from "3.prems"(2) obtain y ys where q: "q = y # ys"
    by (cases q) auto
  show ?case
  proof (cases "y = x")
    case False
    with "3.prems"(3) q r' show ?thesis by (simp add: update_conv')
  next
    case True
    with "3.prems"(2) q have np: "\<not> prefix ys xs" by simp
    then have "ys \<noteq> []" by auto
    then obtain z zs where ys: "ys = z # zs"
      by (cases ys) auto
    have "fs_lookup ?child ys = None"
      using "3.prems"(3) q True ys by (auto split: option.splits)
    from "3.IH"[OF m' np this] show ?thesis
      using q True r' by (simp add: update_conv')
  qed
qed

section \<open>The filtered copy onto a fresh target\<close>

lemma map_of_prune_entries:
  "map_of (prune_entries es) x = (if excluded x then None else map_option prune (map_of es x))"
  by (induction es) auto

lemma lookup_prune:
  "fs_lookup (prune s) q =
     (if \<exists>x\<in>set q. excluded x then None else map_option prune (fs_lookup s q))"
proof (induction q arbitrary: s)
  case Nil
  then show ?case by simp
next
  case (Cons x q)
  show ?case
  proof (cases s)
    case (File c)
    then show ?thesis by simp
  next
    case (Dir es)
    then show ?thesis using Cons.IH
      by (auto simp: map_of_prune_entries split: option.splits)
  qed
qed

lemma update_absent: "x \<notin> fst ` set ds \<Longrightarrow> AList.update x m ds = ds @ [(x, m)]"
  by (induction ds) auto

lemma map_of_absent: "x \<notin> fst ` set ds \<Longrightarrow> map_of ds x = None"
  by (simp add: map_of_eq_None_iff)

lemma copy_filter_child: "copy_filter (sp @ [x]) = (\<not> excluded x)"
  by (simp add: copy_filter_def basename_def excluded_def)

lemma copy_fresh:
  "(flt = copy_filter \<longrightarrow> wf_node n \<longrightarrow> d = None \<longrightarrow>
      copy_node flt sp n d = (None, Some (prune n)))"
  "(flt = copy_filter \<longrightarrow> wf_entries es \<longrightarrow> fst ` set es \<inter> fst ` set ds = {} \<longrightarrow>
      copy_entries flt sp es ds = (None, ds @ prune_entries es))"
proof (induction flt sp n d and flt sp es ds rule: copy_node_copy_entries.induct)
  case (1 flt sp c d)
  then show ?case by simp
next
  case (2 flt sp es d)
  then show ?case by simp
next
  case (3 flt sp ds)
  then show ?case by simp
next
  case (4 flt sp x n es ds)
  show ?case
  proof (intro impI)
    assume flt: "flt = copy_filter"
    assume wf: "wf_entries ((x, n) # es)"
      and dj: "fst ` set ((x, n) # es) \<inter> fst ` set ds = {}"
    from dj have xds: "x \<notin> fst ` set ds" by auto
    have "copy_entries copy_filter sp ((x, n) # es) ds =
        (None, ds @ prune_entries ((x, n) # es))"
    proof (cases "excluded x")
      case True
      then have nf: "\<not> copy_filter (sp @ [x])"
        by (simp add: copy_filter_child)
      from wf dj have "copy_entries copy_filter sp es ds = (None, ds @ prune_entries es)"
        using "4.IH"(3)[unfolded flt, OF nf] by auto
      with True nf show ?thesis by simp
    next
      case False
      then have f: "copy_filter (sp @ [x])"
        by (simp add: copy_filter_child)
      have cn: "copy_node copy_filter (sp @ [x]) n (map_of ds x) = (None, Some (prune n))"
        using "4.IH"(1)[unfolded flt, OF f] wf xds by (simp add: map_of_absent)
      have dj': "fst ` set es \<inter> fst ` set (ds @ [(x, prune n)]) = {}"
        using wf dj by auto
      have "copy_entries copy_filter sp es (ds @ [(x, prune n)]) =
          (None, (ds @ [(x, prune n)]) @ prune_entries es)"
        using "4.IH"(2)[unfolded flt, OF f cn[symmetric] refl] wf dj' xds
        by (simp add: update_absent)
      with False f cn xds show ?thesis by (simp add: update_absent)
    qed
    then show "copy_entries flt sp ((x, n) # es) ds = (None, ds @ prune_entries ((x, n) # es))"
      unfolding flt .
  qed
qed

lemma fs_copy_fresh:
  assumes src: "fs_lookup root src = Some s" and wf: "wf_node s"
    and dest: "fs_lookup root dest = None"
    and ok: "fs_copy copy_filter src dest root = (None, root')"
  shows "fs_lookup root' dest = (if copy_filter src then Some (prune s) else None)"
proof (cases "copy_filter src")
  case False
  with ok src dest have "root' = root"
    by (auto simp: fs_copy_def split: if_splits node.splits)
  with False dest show ?thesis by simp
next
  case True
  from dest have ne: "dest \<noteq> []" by auto
  have np: "\<not> prefix dest (dirname dest)"
  proof
    assume "prefix dest (dirname dest)"
    then have "length dest \<le> length (butlast dest)"
      unfolding dirname_def by (rule prefix_length_le)
    then have "length dest \<le> length dest - 1"
      by (simp only: length_butlast)
    moreover have "0 < length dest" using ne by simp
    ultimately show False by arith
  qed
  define r1 where
    "r1 = (if pathExists root (dirname dest) then Some root else mkdirs root (dirname dest))"
  from ok src dest True obtain root1 where root1: "r1 = Some root1"
    by (cases r1) (auto simp: fs_copy_def r1_def split: if_splits node.splits)
  have d1: "fs_lookup root1 dest = None"
    using root1 dest lookup_mkdirs[OF _ np dest] by (auto simp: r1_def split: if_splits)
  have cn: "copy_node copy_filter src s (fs_lookup root1 dest) = (None, Some (prune s))"
    using copy_fresh(1)[of copy_filter s "fs_lookup root1 dest" src] wf d1 by simp
  from ok src dest True root1 cn have "place root1 dest (prune s) = Some root'"
    by (auto simp: fs_copy_def r1_def split: if_splits node.splits option.splits)
  then show ?thesis using True by (simp add: lookup_place)
qed

section \<open>Facts about the request\<close>

lemma scaffold_files_defaults:
  "scaffold_files e (options\<lparr>defaults := d\<rparr>) w = scaffold_files e options w"
  by (simp add: scaffold_files_def templateName_of_def resolvedTemplateName_of_def
      targetDir_of_def config_def network_label_def wallets_value_def Let_def
      cong: prod.case_cong option.case_cong if_cong)

lemma install_args_defaults:
  "install_args_of e (options\<lparr>defaults := d\<rparr>) = install_args_of e options"
  by (simp add: install_args_of_def targetDir_of_def)


section \<open>The claims\<close>

text \<open>
  Claim C2. A request in untyped mode (\<^verbatim>\<open>useTs = false\<close>) whose template name (line 37:
  the requested name, \<^verbatim>\<open>default\<close> when the request has none or an empty one) is not
  \<^verbatim>\<open>default\<close> fails with the unsupported-template error; the error carries the
  template name and its message quotes it; and the world is returned as it was: nothing
  is written, the target directory is not created.
\<close>

theorem unsupported_template_before_writes:
  assumes "\<not> useTs options" and "templateName_of options \<noteq> ''default''"
  shows "scaffold e options w = (Some (UnsupportedTemplate (templateName_of options)), w)
    \<and> sublist (templateName_of options)
         (error_message (UnsupportedTemplate (templateName_of options)))"
proof -
  have "error_message (UnsupportedTemplate (templateName_of options)) =
      (''Template '' @ dquote) @ templateName_of options @ (dquote @
      '' is not available for JavaScript yet. Please use the default template with --javascript.'')"
    by simp
  then have "sublist (templateName_of options)
      (error_message (UnsupportedTemplate (templateName_of options)))"
    by (simp only: sublist_between)
  then show ?thesis
    using assms by (simp add: scaffold_def scaffold_files_def Let_def)
qed

theorem unsupported_template_before_writes_witness:
  "\<not> useTs (demo_options\<lparr>useTs := False, template := Some ''minimal''\<rparr>)
   \<and> templateName_of (demo_options\<lparr>useTs := False, template := Some ''minimal''\<rparr>) \<noteq> ''default''
   \<and> scaffold demo_env (demo_options\<lparr>useTs := False, template := Some ''minimal''\<rparr>) demo_world =
       (Some (UnsupportedTemplate ''minimal''), demo_world)
   \<and> \<not> pathExists (files demo_world) (targetDir_of demo_env demo_options)"
proof -
  let ?o = "demo_options\<lparr>useTs := False, template := Some ''minimal''\<rparr>"
  have a: "\<not> useTs ?o" by simp
  have n: "templateName_of ?o = ''minimal''"
    by (simp add: templateName_of_def or_default_def)
  then have b: "templateName_of ?o \<noteq> ''default''" by simp
  have c: "\<not> pathExists (files demo_world) (targetDir_of demo_env demo_options)"
    by code_simp
  from unsupported_template_before_writes[OF a b, of demo_env demo_world] a b c n
  show ?thesis by simp
qed

text \<open>
  Claim C3, as stated, fails: the template check of lines 38 to 42 comes before the
  check of the target (lines 61 to 63), so a request in untyped mode for another
  template than \<^verbatim>\<open>default\<close> fails with the unsupported-template error also when its
  target directory exists. Here \<^verbatim>\<open>/work/old\<close> exists.
\<close>

theorem directory_exists_counterexample:
  "pathExists (files demo_world)
     (targetDir_of demo_env
        (demo_options\<lparr>appName := ''old'', useTs := False, template := Some ''minimal''\<rparr>))
   \<and> fst (scaffold demo_env
        (demo_options\<lparr>appName := ''old'', useTs := False, template := Some ''minimal''\<rparr>)
        demo_world) \<noteq> Some (DirectoryExists ''old'')"
  by code_simp

text \<open>
  Claim C3, amended. When the target directory (the working directory joined with the
  application name) already exists, scaffold fails and returns the world as it was, so
  the directory's contents are unchanged; the error is the directory-exists error for
  every request that passes the template check (typed mode, or the default template),
  and the unsupported-template error for the others.
\<close>

theorem existing_target_no_mutation:
  assumes "pathExists (files w) (targetDir_of e options)"
  shows "scaffold e options w =
     (Some (if \<not> useTs options \<and> templateName_of options \<noteq> ''default''
            then UnsupportedTemplate (templateName_of options)
            else DirectoryExists (appName options)), w)"
  using assms by (simp add: scaffold_def scaffold_files_def Let_def)

theorem existing_target_no_mutation_witness:
  "pathExists (files demo_world) (targetDir_of demo_env (demo_options\<lparr>appName := ''old''\<rparr>))
   \<and> scaffold demo_env (demo_options\<lparr>appName := ''old''\<rparr>) demo_world =
       (Some (DirectoryExists ''old''), demo_world)"
proof -
  let ?o = "demo_options\<lparr>appName := ''old''\<rparr>"
  have a: "pathExists (files demo_world) (targetDir_of demo_env ?o)"
    by code_simp
  have b: "useTs ?o" by (simp add: demo_options_def)
  from existing_target_no_mutation[OF a] a b show ?thesis by simp
qed

text \<open>
  Claim C10. The \<^verbatim>\<open>defaults\<close> field is never read: two requests that differ in it
  alone give the same error or success, leave the same world, and hand the same
  argument to the install delegate.
\<close>

theorem defaults_never_read:
  "scaffold e (options\<lparr>defaults := d\<rparr>) w = scaffold e options w
   \<and> install_args_of e (options\<lparr>defaults := d\<rparr>) = install_args_of e options"
  unfolding scaffold_def scaffold_files_defaults install_args_defaults
  by (simp cong: prod.case_cong option.case_cong if_cong)

theorem defaults_never_read_witness:
  "scaffold demo_env (demo_options\<lparr>defaults := Some True\<rparr>) demo_world =
     scaffold demo_env demo_options demo_world
   \<and> install_args_of demo_env (demo_options\<lparr>defaults := Some True\<rparr>) =
     install_args_of demo_env demo_options"
  using defaults_never_read[where e = demo_env and options = demo_options and d = "Some True"
      and w = demo_world] by simp


text \<open>
  Claim C4. Template resolution (lines 46 to 56) searches a fixed list of five
  candidate roots. Its result is always one of them (there is no error to return): the
  first candidate whose \<^verbatim>\<open>{root}/{templateName}/package.json\<close> exists, and the last
  candidate of the list when no candidate has it.
\<close>

theorem template_root_first_or_last:
  "length (templateRoots e) = 5
   \<and> templateRoot_of e root name \<in> set (templateRoots e)
   \<and> (\<forall>i<length (templateRoots e).
        has_manifest root name (templateRoots e ! i)
        \<and> (\<forall>j<i. \<not> has_manifest root name (templateRoots e ! j))
        \<longrightarrow> templateRoot_of e root name = templateRoots e ! i)
   \<and> ((\<forall>c\<in>set (templateRoots e). \<not> has_manifest root name c)
        \<longrightarrow> templateRoot_of e root name = last (templateRoots e))"
proof -
  have ne: "templateRoots e \<noteq> []"
    by (simp add: templateRoots_def)
  have last_eq: "templateRoots e ! (length (templateRoots e) - 1) = last (templateRoots e)"
    using ne by (simp add: last_conv_nth)
  have mem: "templateRoot_of e root name \<in> set (templateRoots e)"
  proof (cases "find (has_manifest root name) (templateRoots e)")
    case None
    then show ?thesis using ne last_eq by (simp add: templateRoot_of_def)
  next
    case (Some c)
    then show ?thesis by (simp add: templateRoot_of_def find_mem)
  qed
  have first: "\<forall>i<length (templateRoots e).
        has_manifest root name (templateRoots e ! i)
        \<and> (\<forall>j<i. \<not> has_manifest root name (templateRoots e ! j))
        \<longrightarrow> templateRoot_of e root name = templateRoots e ! i"
    by (auto simp: templateRoot_of_def find_first)
  have fallback: "(\<forall>c\<in>set (templateRoots e). \<not> has_manifest root name c)
        \<longrightarrow> templateRoot_of e root name = last (templateRoots e)"
  proof
    assume "\<forall>c\<in>set (templateRoots e). \<not> has_manifest root name c"
    then have "find (has_manifest root name) (templateRoots e) = None"
      by (simp add: find_None_iff)
    then show "templateRoot_of e root name = last (templateRoots e)"
      using last_eq by (simp add: templateRoot_of_def)
  qed
  show ?thesis using length_templateRoots mem first fallback by blast
qed

text \<open>
  In the example, \<^verbatim>\<open>default\<close> has its manifest under the first candidate, and \<^verbatim>\<open>bare\<close>
  has none anywhere, so that the last candidate is taken.
\<close>

theorem template_root_first_or_last_witness:
  "has_manifest demo_tree ''default'' (templateRoots demo_env ! 0)
   \<and> templateRoot_of demo_env demo_tree ''default'' = [''app'', ''dist'', ''templates'']
   \<and> list_all (\<lambda>c. \<not> has_manifest demo_tree ''bare'' c) (templateRoots demo_env)
   \<and> templateRoot_of demo_env demo_tree ''bare'' = [''nextellar'', ''src'', ''templates'']"
proof -
  have a: "has_manifest demo_tree ''default'' (templateRoots demo_env ! 0)"
    by code_simp
  have r0: "templateRoots demo_env ! 0 = [''app'', ''dist'', ''templates'']"
    by code_simp
  have b: "list_all (\<lambda>c. \<not> has_manifest demo_tree ''bare'' c) (templateRoots demo_env)"
    by code_simp
  have rl: "last (templateRoots demo_env) = [''nextellar'', ''src'', ''templates'']"
    by code_simp
  note t1 = template_root_first_or_last[of demo_env demo_tree "''default''"]
  note t2 = template_root_first_or_last[of demo_env demo_tree "''bare''"]
  have "templateRoot_of demo_env demo_tree ''default'' = templateRoots demo_env ! 0"
    using t1 a by auto
  moreover have "templateRoot_of demo_env demo_tree ''bare'' = last (templateRoots demo_env)"
    using t2 b by (simp add: list_all_iff)
  ultimately show ?thesis using a b r0 rl by simp
qed

text \<open>
  Claim C5. Materialization is the filtered copy of lines 65 to 71, made when the target
  is not there yet. After it, the target holds the template tree without its entries
  named \<^verbatim>\<open>.git\<close> or \<^verbatim>\<open>node_modules\<close>: a path below the target leads nowhere when one
  of its components has such a name, and otherwise to the copy of what the template
  has at that path. (The filter is asked about the template directory itself too: under
  an excluded name nothing at all is copied.)
\<close>

theorem materialize_excludes:
  assumes "fs_lookup root templateDir = Some s" and "wf_node s"
    and "fs_lookup root targetDir = None"
    and "fs_copy copy_filter templateDir targetDir root = (None, root')"
  shows "fs_lookup root' targetDir = (if copy_filter templateDir then Some (prune s) else None)
    \<and> (\<forall>q. fs_lookup root' (targetDir @ q) =
          (if \<not> copy_filter templateDir \<or> (\<exists>x\<in>set q. excluded x) then None
           else map_option prune (fs_lookup s q)))"
  using fs_copy_fresh[OF assms] by (simp add: lookup_append lookup_prune)

theorem materialize_excludes_witness:
  "fs_lookup demo_tree [''app'', ''dist'', ''templates'', ''default''] = Some demo_template
   \<and> wf_node demo_template
   \<and> fs_lookup demo_tree [''work'', ''demo''] = None
   \<and> fst (fs_copy copy_filter [''app'', ''dist'', ''templates'', ''default'']
            [''work'', ''demo''] demo_tree) = None
   \<and> fs_lookup (snd (fs_copy copy_filter [''app'', ''dist'', ''templates'', ''default'']
                       [''work'', ''demo''] demo_tree)) [''work'', ''demo''] =
       Some (Dir [(''package.json'', File ''{{APP_NAME}}''),
                  (''src'', Dir [(''a.ts'', File ''b'')])])"
proof -
  let ?T = "[''app'', ''dist'', ''templates'', ''default'']"
  let ?D = "[''work'', ''demo'']"
  let ?r = "fs_copy copy_filter ?T ?D demo_tree"
  have a: "fs_lookup demo_tree ?T = Some demo_template" by code_simp
  have b: "wf_node demo_template" by code_simp
  have c: "fs_lookup demo_tree ?D = None" by code_simp
  have d: "fst ?r = None" by code_simp
  then have d': "?r = (None, snd ?r)" by (simp add: prod_eq_iff)
  have f: "copy_filter ?T" by code_simp
  have p: "prune demo_template =
      Dir [(''package.json'', File ''{{APP_NAME}}''), (''src'', Dir [(''a.ts'', File ''b'')])]"
    by code_simp
  from materialize_excludes[OF a b c d'] f p
  have "fs_lookup (snd ?r) ?D =
      Some (Dir [(''package.json'', File ''{{APP_NAME}}''), (''src'', Dir [(''a.ts'', File ''b'')])])"
    by simp
  with a b c d show ?thesis by simp
qed


text \<open>
  Claim C6. Once the files are in place (lines 37 to 140 have run without error) the
  install delegate is called. When it reports failure and \<^verbatim>\<open>skipInstall\<close> is not set,
  scaffold fails with the install error, which carries the package manager the delegate
  reports and the application name (the name of the target directory under the working
  directory), and its message quotes both. When \<^verbatim>\<open>skipInstall\<close> is set, scaffold
  succeeds although the delegate reports failure.
\<close>

theorem install_failure_escalation:
  assumes "scaffold_files e options w = (None, w')"
    and "env_runInstall e (install_args_of e options) w' = (result, w'')"
    and "\<not> success result"
  shows "if truthy (skipInstall options) then scaffold e options w = (None, w'')
    else scaffold e options w =
        (Some (InstallFailure (used_packageManager result) (appName options)), w'')
      \<and> sublist (used_packageManager result)
           (error_message (InstallFailure (used_packageManager result) (appName options)))
      \<and> sublist (appName options)
           (error_message (InstallFailure (used_packageManager result) (appName options)))"
proof -
  let ?m = "error_message (InstallFailure (used_packageManager result) (appName options))"
  have m1: "?m = (''Dependency installation failed. Please run '' @ dquote) @
      used_packageManager result @
      ('' install'' @ dquote @ '' manually in '' @ dquote @ appName options @ dquote @ ''.'')"
    by simp
  have m2: "?m = (''Dependency installation failed. Please run '' @ dquote @
      used_packageManager result @ '' install'' @ dquote @ '' manually in '' @ dquote) @
      appName options @ (dquote @ ''.'')"
    by simp
  have s1: "sublist (used_packageManager result) ?m"
    by (subst m1) (rule sublist_between)
  have s2: "sublist (appName options) ?m"
    by (subst m2) (rule sublist_between)
  show ?thesis using assms s1 s2 by (simp add: scaffold_def)
qed

theorem install_failure_escalation_witness:
  "fst (scaffold_files demo_env demo_options demo_world) = None
   \<and> \<not> success (fst (env_runInstall demo_env (install_args_of demo_env demo_options)
                      (snd (scaffold_files demo_env demo_options demo_world))))
   \<and> fst (scaffold demo_env demo_options demo_world) = Some (InstallFailure ''npm'' ''demo'')
   \<and> fst (scaffold demo_env (demo_options\<lparr>skipInstall := Some True\<rparr>) demo_world) = None"
proof -
  let ?s = "demo_options\<lparr>skipInstall := Some True\<rparr>"
  let ?w = "snd (scaffold_files demo_env demo_options demo_world)"
  let ?ws = "snd (scaffold_files demo_env ?s demo_world)"
  let ?res = "\<lparr>success = False, used_packageManager = ''npm''\<rparr>"
  have f: "fst (scaffold_files demo_env demo_options demo_world) = None" by code_simp
  then have a: "scaffold_files demo_env demo_options demo_world = (None, ?w)"
    by (simp add: prod_eq_iff)
  have "fst (scaffold_files demo_env ?s demo_world) = None" by code_simp
  then have as: "scaffold_files demo_env ?s demo_world = (None, ?ws)"
    by (simp add: prod_eq_iff)
  have b: "env_runInstall demo_env (install_args_of demo_env demo_options) ?w = (?res, ?w)"
    by (simp add: demo_env_def)
  have bs: "env_runInstall demo_env (install_args_of demo_env ?s) ?ws = (?res, ?ws)"
    by (simp add: demo_env_def)
  have c: "\<not> success ?res" by simp
  have n: "\<not> truthy (skipInstall demo_options)"
    by (simp add: truthy_def demo_options_def)
  have y: "truthy (skipInstall ?s)"
    by (simp add: truthy_def)
  have "scaffold demo_env demo_options demo_world =
      (Some (InstallFailure (used_packageManager ?res) (appName demo_options)), ?w)"
    using install_failure_escalation[OF a b c] n by simp
  moreover have "scaffold demo_env ?s demo_world = (None, ?ws)"
    using install_failure_escalation[OF as bs c] y by simp
  ultimately show ?thesis using f b by (simp add: demo_options_def)
qed

text \<open>
  Claim C7. The value of the \<^verbatim>\<open>{{NETWORK}}\<close> token is \<^verbatim>\<open>PUBLIC\<close> exactly when a horizon
  URL is given and \<^verbatim>\<open>public\<close> occurs in it, and \<^verbatim>\<open>TESTNET\<close> otherwise; with no horizon
  URL the \<^verbatim>\<open>{{HORIZON_URL}}\<close> token is the test endpoint and the label is \<^verbatim>\<open>TESTNET\<close>.
\<close>

theorem network_label_token:
  "map_of (config options) ''{{NETWORK}}'' =
     Some (if (case horizonUrl options of None \<Rightarrow> False | Some u \<Rightarrow> sublist ''public'' u)
           then ''PUBLIC'' else ''TESTNET'')
   \<and> (if horizonUrl options = None
      then map_of (config options) ''{{HORIZON_URL}}'' = Some ''https://horizon-testnet.stellar.org''
         \<and> map_of (config options) ''{{NETWORK}}'' = Some ''TESTNET''
      else True)"
  by (auto simp: config_def network_label_def or_default_def string_includes_sublist
      split: option.splits)

theorem network_label_token_witness:
  "map_of (config (demo_options\<lparr>horizonUrl := Some ''https://horizon.stellar.org/public''\<rparr>))
     ''{{NETWORK}}'' = Some ''PUBLIC''
   \<and> map_of (config (demo_options\<lparr>horizonUrl := Some ''https://horizon-testnet.stellar.org''\<rparr>))
     ''{{NETWORK}}'' = Some ''TESTNET''
   \<and> map_of (config demo_options) ''{{NETWORK}}'' = Some ''TESTNET''"
proof -
  have p: "sublist ''public'' ''https://horizon.stellar.org/public''" by code_simp
  have q: "\<not> sublist ''public'' ''https://horizon-testnet.stellar.org''" by code_simp
  have n: "horizonUrl demo_options = None" by (simp add: demo_options_def)
  from network_label_token[of "demo_options\<lparr>horizonUrl := Some ''https://horizon.stellar.org/public''\<rparr>"]
    network_label_token[of "demo_options\<lparr>horizonUrl := Some ''https://horizon-testnet.stellar.org''\<rparr>"]
    network_label_token[of demo_options] p q n
  show ?thesis by simp
qed

text \<open>
  Claim C8, as stated, fails: the file is read and written as \<^verbatim>\<open>"utf8"\<close> (lines 102
  and 107), so bytes that are not valid UTF-8 come back as the replacement character
  although no token occurs. The file \<^verbatim>\<open>61 FF 62\<close> holds none of the five tokens and
  is rewritten as \<^verbatim>\<open>61 EF BF BD 62\<close>.
\<close>

theorem replaceInFile_bytes_counterexample:
  "readFile (Dir [(''README.md'', File [CHR 0x61, CHR 0xFF, CHR 0x62])]) [''README.md''] =
     Inr [CHR 0x61, CHR 0xFF, CHR 0x62]
   \<and> map fst (config demo_options) =
     [''{{APP_NAME}}'', ''{{HORIZON_URL}}'', ''{{SOROBAN_URL}}'', ''{{NETWORK}}'', ''{{WALLETS}}'']
   \<and> \<not> sublist ''{{APP_NAME}}'' [CHR 0x61, CHR 0xFF, CHR 0x62]
   \<and> \<not> sublist ''{{HORIZON_URL}}'' [CHR 0x61, CHR 0xFF, CHR 0x62]
   \<and> \<not> sublist ''{{SOROBAN_URL}}'' [CHR 0x61, CHR 0xFF, CHR 0x62]
   \<and> \<not> sublist ''{{NETWORK}}'' [CHR 0x61, CHR 0xFF, CHR 0x62]
   \<and> \<not> sublist ''{{WALLETS}}'' [CHR 0x61, CHR 0xFF, CHR 0x62]
   \<and> replaceInFile (Dir [(''README.md'', File [CHR 0x61, CHR 0xFF, CHR 0x62])]) [''README.md'']
        (config demo_options) =
     (None, Dir [(''README.md'', File [CHR 0x61, CHR 0xEF, CHR 0xBF, CHR 0xBD, CHR 0x62])])"
  by code_simp

text \<open>
  Claim C8, amended. For every file whose content is valid UTF-8 and holds no occurrence
  of any key of the substitution map, the substitution (lines 98 to 108) computes the
  same text and writes the same bytes back: the file, and the whole tree, are as before.
\<close>

theorem replaceInFile_without_tokens:
  assumes "readFile root filePath = Inr content"
    and "valid_utf8 content"
    and "\<forall>(key, val)\<in>set replacements. \<not> sublist key content"
  shows "replace_tokens (utf8_decode content) replacements = content
    \<and> replaceInFile root filePath replacements = (None, root)"
proof -
  from assms(2) have d: "utf8_decode content = content"
    by (simp add: valid_utf8_def)
  from assms(3) have r: "replace_tokens content replacements = content"
    by (rule replace_tokens_absent)
  from assms(1) have "fs_lookup root filePath = Some (File content)"
    by (auto simp: readFile_def split: option.splits node.splits)
  then have "writeFile root filePath content = Inr root"
    by (simp add: writeFile_def place_same)
  with assms(1) d r show ?thesis
    by (simp add: replaceInFile_def readFile_utf8_def writeFile_utf8_def)
qed

theorem replaceInFile_without_tokens_witness:
  "readFile demo_tree [''work'', ''old'', ''keep''] = Inr ''k''
   \<and> valid_utf8 ''k''
   \<and> list_all (\<lambda>(key, val). \<not> sublist key ''k'') (config demo_options)
   \<and> replaceInFile demo_tree [''work'', ''old'', ''keep''] (config demo_options) = (None, demo_tree)"
proof -
  have a: "readFile demo_tree [''work'', ''old'', ''keep''] = Inr ''k''" by code_simp
  have v: "valid_utf8 ''k''" by code_simp
  have b: "list_all (\<lambda>(key, val). \<not> sublist key ''k'') (config demo_options)" by code_simp
  then have b': "\<forall>(key, val)\<in>set (config demo_options). \<not> sublist key ''k''"
    by (simp add: list_all_iff)
  from replaceInFile_without_tokens[OF a v b'] a v b show ?thesis by simp
qed

text \<open>
  Claim C9. The value of the \<^verbatim>\<open>{{WALLETS}}\<close> token is the JSON array of the wallets given
  when the list is not empty, and otherwise, the list absent or empty, the JSON array of
  the three default wallets, \<^verbatim>\<open>["freighter","albedo","lobstr"]\<close>.
\<close>

theorem wallets_token:
  "map_of (config options) ''{{WALLETS}}'' =
     Some (case wallets options of
             None \<Rightarrow> JSON_stringify [''freighter'', ''albedo'', ''lobstr'']
           | Some ws \<Rightarrow> if ws \<noteq> [] then JSON_stringify ws
                        else JSON_stringify [''freighter'', ''albedo'', ''lobstr''])
   \<and> JSON_stringify [''freighter'', ''albedo'', ''lobstr''] =
       ''['' @ dquote @ ''freighter'' @ dquote @ '','' @ dquote @ ''albedo'' @ dquote @
       '','' @ dquote @ ''lobstr'' @ dquote @ '']''"
proof -
  have "map_of (config options) ''{{WALLETS}}'' = Some (wallets_value options)"
    by (simp add: config_def)
  moreover have "JSON_stringify [''freighter'', ''albedo'', ''lobstr''] =
       ''['' @ dquote @ ''freighter'' @ dquote @ '','' @ dquote @ ''albedo'' @ dquote @
       '','' @ dquote @ ''lobstr'' @ dquote @ '']''"
    by (simp add: JSON_stringify_def json_quote_def json_escape_def dquote_def)
  ultimately show ?thesis
    by (auto simp: wallets_value_def split: option.splits)
qed

theorem wallets_token_witness:
  "map_of (config (demo_options\<lparr>wallets := Some [''xbull'', ''rabet'']\<rparr>)) ''{{WALLETS}}'' =
     Some (''['' @ dquote @ ''xbull'' @ dquote @ '','' @ dquote @ ''rabet'' @ dquote @ '']'')
   \<and> map_of (config (demo_options\<lparr>wallets := Some []\<rparr>)) ''{{WALLETS}}'' =
     Some (JSON_stringify [''freighter'', ''albedo'', ''lobstr''])
   \<and> map_of (config demo_options) ''{{WALLETS}}'' =
     Some (JSON_stringify [''freighter'', ''albedo'', ''lobstr''])"
proof -
  have j: "JSON_stringify [''xbull'', ''rabet''] =
      ''['' @ dquote @ ''xbull'' @ dquote @ '','' @ dquote @ ''rabet'' @ dquote @ '']''"
    by code_simp
  have n: "wallets demo_options = None" by (simp add: demo_options_def)
  from wallets_token[of "demo_options\<lparr>wallets := Some [''xbull'', ''rabet'']\<rparr>"]
    wallets_token[of "demo_options\<lparr>wallets := Some []\<rparr>"]
    wallets_token[of demo_options] j n
  show ?thesis by simp
qed

text \<open>
  Claim C1. The append of lines 91 to 95 has no check that the environment sample is
  there, unlike the contracts template (line 76) and the manifest (line 83):
  \<^verbatim>\<open>fs.appendFile\<close> creates the file it does not find. In the example the template
  \<^verbatim>\<open>bare\<close> has no \<^verbatim>\<open>.env.example\<close>; after a run with the contracts flag the target has
  one, holding the appended block alone.
\<close>

theorem env_example_created_when_absent:
  "fs_lookup demo_tree [''nextellar'', ''src'', ''templates'', ''bare'', ''.env.example''] = None
   \<and> fst (scaffold_files demo_env
        (demo_options\<lparr>template := Some ''bare'', withContracts := Some True\<rparr>) demo_world) = None
   \<and> fs_lookup (files (snd (scaffold_files demo_env
        (demo_options\<lparr>template := Some ''bare'', withContracts := Some True\<rparr>) demo_world)))
        [''work'', ''demo'', ''.env.example''] = Some (File env_block)"
  by code_simp

end
